theory Spec2Isabelle
  imports Main
begin

section \<open>The definition extractor of tools/code_navigator.py\<close>

text \<open>
  The tool maps a file's extension to a grammar name, asks the tree-sitter library for the
  captures of a fixed query, turns every name capture into a record and collects the
  records per file. Parsing and query matching are done by the library; the operating
  system supplies the files. Both are parameters of the model (the record \<open>env\<close>), so
  that every function below is the function of the source with its surroundings made
  explicit.
\<close>

subsection \<open>Strings and bytes\<close>

text \<open>
  A Python \<open>bytes\<close> value is a list of characters (each \<open>char\<close> is one byte). A Python
  \<open>str\<close> is represented by its UTF-8 encoding, so \<open>decode("utf-8")\<close> returns the bytes
  unchanged when they are well-formed UTF-8 and raises \<open>UnicodeDecodeError\<close> otherwise.
  The other two exceptions are those a call of the library can end with.
\<close>

datatype exn = UnicodeDecodeError | TypeError | AttributeError

definition endswith :: "string \<Rightarrow> string \<Rightarrow> bool" where
  "endswith s suf \<longleftrightarrow>
     length suf \<le> length s \<and> drop (length s - length suf) s = suf"

fun startswith :: "string \<Rightarrow> string \<Rightarrow> bool" where
  "startswith s [] = True"
| "startswith [] (c # cs) = False"
| "startswith (d # ds) (c # cs) = (d = c \<and> startswith ds cs)"

text \<open>\<open>sub in s\<close> of Python.\<close>

fun contains :: "string \<Rightarrow> string \<Rightarrow> bool" where
  "contains [] sub = (sub = [])"
| "contains (c # cs) sub = (startswith (c # cs) sub \<or> contains cs sub)"

text \<open>\<open>content[a:b]\<close> for indices that are not negative.\<close>

definition slice :: "string \<Rightarrow> nat \<Rightarrow> nat \<Rightarrow> string" where
  "slice content a b = take (b - a) (drop a content)"

definition cont_byte :: "nat \<Rightarrow> bool" where
  "cont_byte b \<longleftrightarrow> 128 \<le> b \<and> b \<le> 191"

text \<open>Well-formed UTF-8 (no overlong forms, no surrogates, nothing above U+10FFFF).\<close>

fun utf8_ok :: "nat list \<Rightarrow> bool" where
  "utf8_ok [] = True"
| "utf8_ok (b0 # bs) =
     (if b0 < 128 then utf8_ok bs
      else if 194 \<le> b0 \<and> b0 \<le> 223 then
        (case bs of b1 # r \<Rightarrow> cont_byte b1 \<and> utf8_ok r | _ \<Rightarrow> False)
      else if 224 \<le> b0 \<and> b0 \<le> 239 then
        (case bs of b1 # b2 # r \<Rightarrow>
           (if b0 = 224 then 160 \<le> b1 \<and> b1 \<le> 191
            else if b0 = 237 then 128 \<le> b1 \<and> b1 \<le> 159
            else cont_byte b1) \<and> cont_byte b2 \<and> utf8_ok r
         | _ \<Rightarrow> False)
      else if 240 \<le> b0 \<and> b0 \<le> 244 then
        (case bs of b1 # b2 # b3 # r \<Rightarrow>
           (if b0 = 240 then 144 \<le> b1 \<and> b1 \<le> 191
            else if b0 = 244 then 128 \<le> b1 \<and> b1 \<le> 143
            else cont_byte b1) \<and> cont_byte b2 \<and> cont_byte b3 \<and> utf8_ok r
         | _ \<Rightarrow> False)
      else False)"

definition decode_utf8 :: "string \<Rightarrow> exn + string" where
  "decode_utf8 bs = (if utf8_ok (map of_char bs) then Inr bs else Inl UnicodeDecodeError)"

subsection \<open>Paths\<close>

text \<open>
  A \<open>pathlib.Path\<close> is represented by its string \<open>str(p)\<close>. pathlib keeps a path as an
  anchor (nothing, \<open>/\<close>, or \<open>//\<close> when the string starts with exactly two slashes) and
  the components between the slashes, without the empty ones and the single dots; the
  string of a path with neither anchor nor component is \<open>.\<close>.
\<close>

type_synonym path = string

fun split_on :: "char \<Rightarrow> string \<Rightarrow> string list" where
  "split_on c [] = [[]]"
| "split_on c (x # xs) =
     (if x = c then [] # split_on c xs
      else (case split_on c xs of
              [] \<Rightarrow> [[x]]
            | p # ps \<Rightarrow> (x # p) # ps))"

definition path_parts :: "string \<Rightarrow> string list" where
  "path_parts s = filter (\<lambda>p. p \<noteq> [] \<and> p \<noteq> ''.'') (split_on CHR ''/'' s)"

definition path_anchor :: "string \<Rightarrow> string" where
  "path_anchor s =
     (if startswith s ''//'' \<and> \<not> startswith s ''///'' then ''//''
      else if startswith s ''/'' then ''/''
      else [])"

fun join_parts :: "string list \<Rightarrow> string" where
  "join_parts [] = []"
| "join_parts [p] = p"
| "join_parts (p # q # ps) = p @ ''/'' @ join_parts (q # ps)"

definition path_str :: "string \<Rightarrow> string list \<Rightarrow> path" where
  "path_str anchor parts =
     (if anchor = [] \<and> parts = [] then ''.'' else anchor @ join_parts parts)"

text \<open>
  \<open>joinpath root file\<close> is \<open>str(Path(root) / file)\<close> for a root as the directory walk
  yields it (\<open>.\<close>, \<open>./sub\<close>) and a file name of that directory.
\<close>

definition joinpath :: "string \<Rightarrow> string \<Rightarrow> path" where
  "joinpath root file = path_str (path_anchor root) (path_parts root @ path_parts file)"

definition path_name :: "path \<Rightarrow> string" where
  "path_name p = rev (takeWhile (\<lambda>c. c \<noteq> CHR ''/'') (rev p))"

text \<open>\<open>name.rfind('.')\<close>: the index of the last dot, \<open>None\<close> for Python's \<open>-1\<close>.\<close>

definition rfind_dot :: "string \<Rightarrow> nat option" where
  "rfind_dot name =
     (let after = takeWhile (\<lambda>c. c \<noteq> CHR ''.'') (rev name)
      in if length after = length name then None
         else Some (length name - length after - 1))"

text \<open>
  \<open>Path.suffix\<close>: the last dot of the name and what follows it, unless that dot is the
  first or the last character of the name.
\<close>

definition path_suffix :: "path \<Rightarrow> string" where
  "path_suffix p =
     (let name = path_name p
      in case rfind_dot name of
           None \<Rightarrow> ''''
         | Some i \<Rightarrow> if 0 < i \<and> i + 1 < length name then drop i name else '''')"

subsection \<open>The extension table\<close>

definition EXT_TO_LANG :: "(string \<times> string) list" where
  "EXT_TO_LANG =
     [(''.py'', ''python''),
      (''.js'', ''javascript''),
      (''.go'', ''go''),
      (''.c'', ''c''),
      (''.cpp'', ''cpp''),
      (''.h'', ''c''),
      (''.hpp'', ''cpp'')]"

text \<open>\<open>EXT_TO_LANG.get(ext)\<close>.\<close>

definition lang_of_ext :: "string \<Rightarrow> string option" where
  "lang_of_ext ext = map_of EXT_TO_LANG ext"

subsection \<open>The surroundings: library and file system\<close>

text \<open>A syntax-tree node as the library hands it out; a point is (row, column), from 0.\<close>

record ts_node =
  start_byte :: nat
  end_byte :: nat
  start_point :: "nat \<times> nat"
  end_point :: "nat \<times> nat"

datatype parser = Parser string

record env =
  tree_sitter_installed :: bool
  importable :: "string \<Rightarrow> bool"
  set_language :: "string \<Rightarrow> exn option"
  path_exists :: "path \<Rightarrow> bool"
  path_is_file :: "path \<Rightarrow> bool"
  read_bytes :: "path \<Rightarrow> string + string"
  os_walk :: "path \<Rightarrow> (string \<times> string list) list"
  ts_captures :: "parser \<Rightarrow> string \<Rightarrow> string \<Rightarrow> (ts_node \<times> string) list"

text \<open>
  \<open>importable m\<close>: \<open>import m\<close> does not raise \<open>ImportError\<close>.
  \<open>set_language lang_name\<close>: what \<open>parser.set_language(lang)\<close> does when \<open>lang\<close> is the
  value \<open>language()\<close> of the package of that grammar, handed over as it is: \<open>None\<close> when
  the call returns, \<open>Some x\<close> when it raises \<open>x\<close>.
  \<open>read_bytes p\<close>: the bytes of the file, or \<open>Inl (str e)\<close> when opening or reading
  raises \<open>e\<close>.
  \<open>os_walk p\<close>: the directories \<open>os.walk(p)\<close> visits, each as the string it yields for
  the directory and the names of its files.
  \<open>ts_captures parser query content\<close>: parse \<open>content\<close>, compile \<open>query\<close> and return its
  captures on the root node, as (node, tag) pairs.
\<close>

subsection \<open>get_parser\<close>

text \<open>
  The two lines after the chain of imports, \<open>parser.set_language(lang)\<close> and
  \<open>return parser\<close>. They stand inside the \<open>try\<close>, which catches \<open>ImportError\<close> only: any
  exception of \<open>set_language\<close> leaves \<open>get_parser\<close>.
\<close>

definition configure :: "env \<Rightarrow> string \<Rightarrow> exn + parser option" where
  "configure e lang_name =
     (case set_language e lang_name of
        Some x \<Rightarrow> Inl x
      | None \<Rightarrow> Inr (Some (Parser lang_name)))"

text \<open>\<open>Inr None\<close> is the \<open>None\<close> the source returns, \<open>Inl x\<close> an exception that leaves it.\<close>

definition get_parser :: "env \<Rightarrow> string \<Rightarrow> exn + parser option" where
  "get_parser e lang_name =
     (if lang_name = ''python'' then
        (if importable e ''tree_sitter_python'' then configure e lang_name else Inr None)
      else if lang_name = ''javascript'' then
        (if importable e ''tree_sitter_javascript'' then configure e lang_name else Inr None)
      else if lang_name = ''go'' then
        (if importable e ''tree_sitter_go'' then configure e lang_name else Inr None)
      else if lang_name = ''c'' then
        (if importable e ''tree_sitter_c'' then configure e lang_name else Inr None)
      else if lang_name = ''cpp'' then
        (if importable e ''tree_sitter_cpp'' then configure e lang_name else Inr None)
      else Inr None)"

text \<open>The package \<open>get_parser\<close> imports for a grammar name.\<close>

definition support_package :: "string \<Rightarrow> string option" where
  "support_package lang_name =
     (if lang_name = ''python'' then Some ''tree_sitter_python''
      else if lang_name = ''javascript'' then Some ''tree_sitter_javascript''
      else if lang_name = ''go'' then Some ''tree_sitter_go''
      else if lang_name = ''c'' then Some ''tree_sitter_c''
      else if lang_name = ''cpp'' then Some ''tree_sitter_cpp''
      else None)"

subsection \<open>extract_definitions\<close>

datatype entry =
  Definition (def_type: string) (def_name: string) (start_line: int) (end_line: int)
| ErrorRecord string

text \<open>The three query texts, with the white space of the source's literals compressed.\<close>

definition python_query :: string where
  "python_query =
     ''(function_definition name: (identifier) @func.name) @func.def '' @
     ''(class_definition name: (identifier) @class.name) @class.def''"

definition javascript_query :: string where
  "javascript_query =
     ''(function_declaration name: (identifier) @func.name) @func.def '' @
     ''(class_declaration name: (identifier) @class.name) @class.def''"

definition go_query :: string where
  "go_query =
     ''(function_declaration name: (identifier) @func.name) @func.def '' @
     ''(type_declaration (type_spec name: (type_identifier) @class.name)) @class.def''"

definition query_of :: "string \<Rightarrow> string option" where
  "query_of lang_name =
     (if lang_name = ''python'' then Some python_query
      else if lang_name = ''javascript'' then Some javascript_query
      else if lang_name = ''go'' then Some go_query
      else None)"

text \<open>The loop over the captures; \<open>definitions\<close> is the list built so far.\<close>

fun collect :: "string \<Rightarrow> (ts_node \<times> string) list \<Rightarrow> entry list \<Rightarrow> exn + entry list" where
  "collect content [] definitions = Inr definitions"
| "collect content ((node, tag) # captures) definitions =
     (if endswith tag ''.name'' then
        (case decode_utf8 (slice content (start_byte node) (end_byte node)) of
           Inl x \<Rightarrow> Inl x
         | Inr name \<Rightarrow>
             collect content captures
               (definitions @
                [Definition (if contains tag ''func'' then ''function'' else ''class'') name
                   (int (fst (start_point node)) + 1)
                   (int (fst (end_point node)) + 1)]))
      else collect content captures definitions)"

definition extract_definitions :: "env \<Rightarrow> path \<Rightarrow> string \<Rightarrow> exn + entry list" where
  "extract_definitions e file_path lang_name =
     (case get_parser e lang_name of
        Inl x \<Rightarrow> Inl x
      | Inr None \<Rightarrow> Inr []
      | Inr (Some parser) \<Rightarrow>
          (case read_bytes e file_path of
             Inl msg \<Rightarrow> Inr [ErrorRecord msg]
           | Inr content \<Rightarrow>
               (case query_of lang_name of
                  None \<Rightarrow> Inr []
                | Some query \<Rightarrow> collect content (ts_captures e parser query content) [])))"

subsection \<open>scan_directory\<close>

type_synonym report = "string \<rightharpoonup> entry list"

text \<open>The body of the inner loop, for one file name of one directory.\<close>

definition visit :: "env \<Rightarrow> string \<Rightarrow> string \<Rightarrow> report \<Rightarrow> exn + report" where
  "visit e root file structure =
     (let file_path = joinpath root file
      in if list_ex (\<lambda>ext. endswith file_path ext) (map fst EXT_TO_LANG) then
           (case lang_of_ext (path_suffix file_path) of
              None \<Rightarrow> Inr structure
            | Some lang \<Rightarrow>
                if lang = '''' then Inr structure
                else (case extract_definitions e file_path lang of
                        Inl x \<Rightarrow> Inl x
                      | Inr defs \<Rightarrow>
                          if defs \<noteq> [] then Inr (structure(file_path \<mapsto> defs))
                          else Inr structure))
         else Inr structure)"

fun scan_files :: "env \<Rightarrow> string \<Rightarrow> string list \<Rightarrow> report \<Rightarrow> exn + report" where
  "scan_files e root [] structure = Inr structure"
| "scan_files e root (file # files) structure =
     (case visit e root file structure of
        Inl x \<Rightarrow> Inl x
      | Inr structure' \<Rightarrow> scan_files e root files structure')"

fun scan_dirs :: "env \<Rightarrow> (string \<times> string list) list \<Rightarrow> report \<Rightarrow> exn + report" where
  "scan_dirs e [] structure = Inr structure"
| "scan_dirs e ((root, files) # dirs) structure =
     (case scan_files e root files structure of
        Inl x \<Rightarrow> Inl x
      | Inr structure' \<Rightarrow> scan_dirs e dirs structure')"

definition scan_directory :: "env \<Rightarrow> path \<Rightarrow> exn + report" where
  "scan_directory e p = scan_dirs e (os_walk e p) Map.empty"

subsection \<open>main and the process\<close>

text \<open>
  How a run ends: \<open>Exit code msg\<close> is \<open>sys.exit(code)\<close> after \<open>msg\<close> on the error stream;
  \<open>Printed r\<close> is the report on standard output and \<open>Complained msg\<close> a message on the
  error stream, both followed by the normal return of \<open>main\<close>; \<open>Uncaught x\<close> is an
  exception that leaves \<open>main\<close>.
\<close>

datatype outcome =
  Exit int string
| Printed report
| Complained string
| Uncaught exn

definition main :: "env \<Rightarrow> path \<Rightarrow> outcome" where
  "main e target_path =
     (if \<not> path_exists e target_path then
        Exit 1 (''Error: '' @ target_path @ '' does not exist'')
      else if path_is_file e target_path then
        (let ext = path_suffix target_path
         in case lang_of_ext ext of
              None \<Rightarrow> Complained (''Unsupported file extension: '' @ ext)
            | Some lang \<Rightarrow>
                if lang = '''' then Complained (''Unsupported file extension: '' @ ext)
                else (case extract_definitions e target_path lang of
                        Inl x \<Rightarrow> Uncaught x
                      | Inr defs \<Rightarrow> Printed [target_path \<mapsto> defs]))
      else
        (case scan_directory e target_path of
           Inl x \<Rightarrow> Uncaught x
         | Inr result \<Rightarrow> Printed result))"

text \<open>
  The module from its first line: the import of the library, then \<open>main\<close>. The command
  line is taken as parsed: \<open>target_path\<close> is the one positional argument.
\<close>

definition run :: "env \<Rightarrow> path \<Rightarrow> outcome" where
  "run e target_path =
     (if \<not> tree_sitter_installed e then Exit 1 ''Error: tree-sitter not installed''
      else main e target_path)"

text \<open>
  The exit status of the process: the argument of \<open>sys.exit\<close>, 0 when \<open>main\<close> returns, and
  1 when an exception leaves \<open>main\<close> (the interpreter prints the traceback and ends with
  that status).
\<close>

fun exit_code :: "outcome \<Rightarrow> int" where
  "exit_code (Exit code msg) = code"
| "exit_code (Printed r) = 0"
| "exit_code (Complained msg) = 0"
| "exit_code (Uncaught x) = 1"

subsection \<open>A concrete file system\<close>

text \<open>
  The directory \<open>.\<close> holds \<open>a.py\<close> (the two lines \<open>def foo():\<close> and \<open>pass\<close>), a hidden
  file \<open>.py\<close> with the same bytes, \<open>notes.txt\<close> and the directory \<open>sub\<close>; \<open>sub\<close> holds
  \<open>empty.py\<close> without a definition, the header \<open>util.h\<close> and two files nobody may read,
  \<open>locked.py\<close> and \<open>locked.c\<close>. Every grammar package is installed, and on this machine
  \<open>set_language\<close> takes the value it is handed. For the source of \<open>a.py\<close> the library
  yields two captures: the \<open>function_definition\<close> node, from row 0 to row 1, tagged
  \<open>func.def\<close>, and its \<open>identifier\<close>, bytes 4 to 7 of row 0, tagged \<open>func.name\<close>. The walk
  of \<open>.\<close> yields the directories as \<open>.\<close> and \<open>./sub\<close>.
\<close>

definition a_py :: string where
  "a_py = ''def foo():'' @ [CHR 0x0A] @ ''    pass'' @ [CHR 0x0A]"

definition foo_def_node :: ts_node where
  "foo_def_node =
     \<lparr>start_byte = 0, end_byte = 19, start_point = (0, 0), end_point = (1, 8)\<rparr>"

definition foo_name_node :: ts_node where
  "foo_name_node =
     \<lparr>start_byte = 4, end_byte = 7, start_point = (0, 4), end_point = (0, 7)\<rparr>"

text \<open>The text of the \<open>PermissionError\<close> that opening \<open>p\<close> raises.\<close>

definition permission_denied :: "path \<Rightarrow> string" where
  "permission_denied p = ''[Errno 13] Permission denied: '' @ [CHR 0x27] @ p @ [CHR 0x27]"

definition demo_files :: "(path \<times> (string + string)) list" where
  "demo_files =
     [(''a.py'', Inr a_py),
      (''.py'', Inr a_py),
      (''notes.txt'', Inr ''remember''),
      (''sub/empty.py'', Inr ''x = 1''),
      (''sub/util.h'', Inr ''int f(void);''),
      (''sub/locked.py'', Inl (permission_denied ''sub/locked.py'')),
      (''sub/locked.c'', Inl (permission_denied ''sub/locked.c''))]"

definition demo_env :: env where
  "demo_env =
     \<lparr>tree_sitter_installed = True,
      importable = (\<lambda>m. True),
      set_language = (\<lambda>lang_name. None),
      path_exists = (\<lambda>p. p \<in> set (map fst demo_files) \<or> p = ''.'' \<or> p = ''sub''),
      path_is_file = (\<lambda>p. p \<in> set (map fst demo_files)),
      read_bytes = (\<lambda>p. case map_of demo_files p of
                            Some r \<Rightarrow> r
                          | None \<Rightarrow> Inl ''[Errno 2] No such file or directory''),
      os_walk = (\<lambda>p. if p = ''.'' then
                         [(''.'', [''a.py'', ''.py'', ''notes.txt'']),
                          (''./sub'', [''empty.py'', ''util.h'', ''locked.py'', ''locked.c''])]
                       else if p = ''sub'' then
                         [(''sub'', [''empty.py'', ''util.h'', ''locked.py'', ''locked.c''])]
                       else []),
      ts_captures = (\<lambda>parser query content.
                       if parser = Parser ''python'' \<and> query = python_query \<and> content = a_py
                       then [(foo_def_node, ''func.def''), (foo_name_node, ''func.name'')]
                       else [])\<rparr>"

text \<open>The same machine without the Python grammar package.\<close>

definition demo_env_no_python :: env where
  "demo_env_no_python = demo_env\<lparr>importable := (\<lambda>m. m \<noteq> ''tree_sitter_python'')\<rparr>"

text \<open>
  The same machine with the library as it is released. \<open>Parser.set_language\<close> wants a
  \<open>Language\<close> object; the source hands it the bare value of \<open>language()\<close> (it imports
  \<open>Language\<close> and never uses it), and the call raises \<open>TypeError\<close>. (From version 0.23 of
  the library the method is gone and the call raises \<open>AttributeError\<close> instead.)
\<close>

definition released_env :: env where
  "released_env = demo_env\<lparr>set_language := (\<lambda>lang_name. Some TypeError)\<rparr>"

text \<open>That machine without any grammar package.\<close>

definition released_env_bare :: env where
  "released_env_bare = released_env\<lparr>importable := (\<lambda>m. False)\<rparr>"

subsection \<open>What every key of a report stands for\<close>

text \<open>
  A report is \<open>keyed\<close> when every key is a path whose suffix has a grammar and whose value
  is the list that extraction returns for that path, and that list is not empty.
\<close>

definition keyed :: "env \<Rightarrow> report \<Rightarrow> bool" where
  "keyed e structure \<longleftrightarrow>
     (\<forall>k defs. structure k = Some defs \<longrightarrow>
        defs \<noteq> [] \<and>
        (\<exists>lang. lang_of_ext (path_suffix k) = Some lang \<and>
                extract_definitions e k lang = Inr defs))"

text \<open>What the scan of \<open>.\<close> reports on that machine.\<close>

definition demo_report :: report where
  "demo_report =
     [''a.py'' \<mapsto> [Definition ''function'' ''foo'' 1 1],
      ''sub/locked.py'' \<mapsto> [ErrorRecord (permission_denied ''sub/locked.py'')],
      ''sub/locked.c'' \<mapsto> [ErrorRecord (permission_denied ''sub/locked.c'')]]"

section \<open>Properties\<close>

subsection \<open>Auxiliary facts\<close>

lemma lang_of_ext_cases:
  "lang_of_ext ext = Some lang \<Longrightarrow>
     lang = ''python'' \<or> lang = ''javascript'' \<or> lang = ''go'' \<or> lang = ''c'' \<or> lang = ''cpp''"
  by (auto simp: lang_of_ext_def EXT_TO_LANG_def split: if_splits)

lemma lang_of_ext_nonempty: "lang_of_ext ext = Some lang \<Longrightarrow> lang \<noteq> ''''"
  by (drule lang_of_ext_cases) auto

lemma lang_of_ext_empty: "lang_of_ext '''' = None"
  by (simp add: lang_of_ext_def EXT_TO_LANG_def)

lemma lang_of_ext_dom: "lang_of_ext ext = Some lang \<Longrightarrow> ext \<in> set (map fst EXT_TO_LANG)"
  unfolding lang_of_ext_def by (metis map_of_SomeD fst_conv image_eqI set_map)

lemma get_parser_support:
  "get_parser e lang =
     (case support_package lang of
        None \<Rightarrow> Inr None
      | Some m \<Rightarrow> if importable e m then configure e lang else Inr None)"
  by (simp add: get_parser_def support_package_def)

lemma get_parser_unavailable:
  "support_package lang = Some m \<Longrightarrow> \<not> importable e m \<Longrightarrow> get_parser e lang = Inr None"
  by (simp add: get_parser_support)

lemma get_parser_read_bytes: "get_parser (e\<lparr>read_bytes := rb\<rparr>) lang = get_parser e lang"
  by (simp add: get_parser_def configure_def)

lemma extract_unavailable:
  "get_parser e lang = Inr None \<Longrightarrow> extract_definitions e p lang = Inr []"
  by (simp add: extract_definitions_def)

lemma extract_raises:
  "get_parser e lang = Inl x \<Longrightarrow> extract_definitions e p lang = Inl x"
  by (simp add: extract_definitions_def)

text \<open>What extraction does once \<open>get_parser\<close> has handed it a parser and the read fails.\<close>

lemma extract_unreadable:
  "get_parser e lang = Inr (Some parser) \<Longrightarrow> read_bytes e p = Inl msg \<Longrightarrow>
     extract_definitions e p lang = Inr [ErrorRecord msg]"
  by (simp add: extract_definitions_def)

lemma collect_lines:
  assumes "collect content caps defs = Inr out"
    and "\<forall>(node, tag) \<in> set caps. fst (start_point node) \<le> fst (end_point node)"
    and "\<forall>d \<in> set defs. case d of Definition t n s l \<Rightarrow> 1 \<le> s \<and> s \<le> l | ErrorRecord m \<Rightarrow> True"
  shows "\<forall>d \<in> set out. case d of Definition t n s l \<Rightarrow> 1 \<le> s \<and> s \<le> l | ErrorRecord m \<Rightarrow> True"
  using assms
proof (induction caps arbitrary: defs)
  case Nil
  then show ?case by simp
next
  case (Cons c caps)
  obtain node tag where c: "c = (node, tag)" by (cases c)
  from Cons.prems(2) c have row: "fst (start_point node) \<le> fst (end_point node)"
    and rest: "\<forall>(node, tag) \<in> set caps. fst (start_point node) \<le> fst (end_point node)"
    by auto
  show ?case
  proof (cases "endswith tag ''.name''")
    case False
    with Cons.prems(1) c have "collect content caps defs = Inr out" by simp
    from Cons.IH [OF this rest Cons.prems(3)] show ?thesis .
  next
    case True
    with Cons.prems(1) c obtain name where
      run: "collect content caps
               (defs @ [Definition (if contains tag ''func'' then ''function'' else ''class'') name
                  (int (fst (start_point node)) + 1) (int (fst (end_point node)) + 1)]) = Inr out"
      by (auto split: sum.splits)
    have "\<forall>d \<in> set (defs @ [Definition (if contains tag ''func'' then ''function'' else ''class'') name
                  (int (fst (start_point node)) + 1) (int (fst (end_point node)) + 1)]).
            case d of Definition t n s l \<Rightarrow> 1 \<le> s \<and> s \<le> l | ErrorRecord m \<Rightarrow> True"
      using Cons.prems(3) row by auto
    from Cons.IH [OF run rest this] show ?thesis .
  qed
qed

lemma decode_utf8_examples:
  "decode_utf8 ''foo'' = Inr ''foo''"
  "decode_utf8 [CHR 0xC3, CHR 0xA9] = Inr [CHR 0xC3, CHR 0xA9]"
  "decode_utf8 [CHR 0xFF] = Inl UnicodeDecodeError"
  "decode_utf8 [CHR 0xC3] = Inl UnicodeDecodeError"
  "decode_utf8 [CHR 0xED, CHR 0xA0, CHR 0x80] = Inl UnicodeDecodeError"
  by (simp_all add: decode_utf8_def cont_byte_def)

lemma collect_undecodable:
  "collect [CHR 0xFF]
     [(\<lparr>start_byte = 0, end_byte = 1, start_point = (0, 0), end_point = (0, 1)\<rparr>,
       ''func.name'')] [] = Inl UnicodeDecodeError"
  by (simp add: endswith_def slice_def decode_utf8_def)

text \<open>
  One function: the node tagged \<open>func.def\<close> contributes nothing, the record is made from
  the node tagged \<open>func.name\<close> alone.
\<close>

lemma collect_one_function:
  assumes "decode_utf8 (slice content (start_byte n) (end_byte n)) = Inr name"
  shows "collect content [(d, ''func.def''), (n, ''func.name'')] [] =
           Inr [Definition ''function'' name
                  (int (fst (start_point n)) + 1) (int (fst (end_point n)) + 1)]"
  using assms by (simp add: endswith_def)

lemma endswith_self: "endswith (pre @ s) s"
  by (simp add: endswith_def)

lemma split_on_no_sep: "c \<notin> set s \<Longrightarrow> split_on c s = [s]"
  by (induction s) auto

lemma path_parts_name:
  "CHR ''/'' \<notin> set f \<Longrightarrow> f \<noteq> [] \<Longrightarrow> f \<noteq> ''.'' \<Longrightarrow> path_parts f = [f]"
  by (simp add: path_parts_def split_on_no_sep)

lemma join_parts_snoc:
  "join_parts (ps @ [f]) = (if ps = [] then f else join_parts ps @ ''/'' @ f)"
  by (induction ps rule: join_parts.induct) auto

lemma path_anchor_cases:
  "path_anchor s = [] \<or> path_anchor s = ''/'' \<or> path_anchor s = ''//''"
  by (simp add: path_anchor_def)

text \<open>The string of a directory joined with a plain file name ends with a slash and the name.\<close>

lemma joinpath_shape:
  assumes "CHR ''/'' \<notin> set f" and "f \<noteq> []" and "f \<noteq> ''.''"
  shows "joinpath root f = f \<or> (\<exists>pre. joinpath root f = pre @ ''/'' @ f)"
proof -
  have j: "joinpath root f =
      path_anchor root @
      (if path_parts root = [] then f else join_parts (path_parts root) @ ''/'' @ f)"
    using assms by (simp add: joinpath_def path_str_def path_parts_name join_parts_snoc)
  show ?thesis
  proof (cases "path_parts root = []")
    case True
    with j have "joinpath root f = path_anchor root @ f" by simp
    with path_anchor_cases [of root] show ?thesis
      by (auto intro: exI [of _ "[]"] exI [of _ "''/''"])
  next
    case False
    with j have "joinpath root f =
        (path_anchor root @ join_parts (path_parts root)) @ ''/'' @ f"
      by simp
    then show ?thesis by blast
  qed
qed

lemma endswith_joinpath:
  assumes "CHR ''/'' \<notin> set f" and "f \<noteq> []" and "f \<noteq> ''.''"
  shows "endswith (joinpath root f) f"
proof -
  from joinpath_shape [OF assms, of root] have "\<exists>pre. joinpath root f = pre @ f"
    by (metis append.assoc append_Nil)
  then show ?thesis using endswith_self by metis
qed

lemma path_name_append_slash:
  assumes "CHR ''/'' \<notin> set file"
  shows "path_name (pre @ ''/'' @ file) = file"
proof -
  have "takeWhile (\<lambda>c. c \<noteq> CHR ''/'') (rev file @ CHR ''/'' # rev pre) =
          rev file @ takeWhile (\<lambda>c. c \<noteq> CHR ''/'') (CHR ''/'' # rev pre)"
    by (rule takeWhile_append2) (use assms in auto)
  then show ?thesis by (simp add: path_name_def)
qed

lemma path_name_plain:
  assumes "CHR ''/'' \<notin> set file"
  shows "path_name file = file"
proof -
  have all: "takeWhile (\<lambda>c. c \<noteq> CHR ''/'') (rev file) = rev file"
    by (rule takeWhile_eq_all_conv [THEN iffD2]) (use assms in auto)
  show ?thesis unfolding path_name_def all by simp
qed

lemma path_name_joinpath:
  assumes "CHR ''/'' \<notin> set f" and "f \<noteq> []" and "f \<noteq> ''.''"
  shows "path_name (joinpath root f) = f"
  using joinpath_shape [OF assms, of root] path_name_plain [OF assms(1)]
    path_name_append_slash [OF assms(1)]
  by auto

lemma ext_is_name:
  assumes "ext \<in> set (map fst EXT_TO_LANG)"
  shows "CHR ''/'' \<notin> set ext" and "ext \<noteq> []" and "ext \<noteq> ''.''"
  using assms by (auto simp: EXT_TO_LANG_def)

lemma suffix_of_bare_ext:
  "ext \<in> set (map fst EXT_TO_LANG) \<Longrightarrow> path_name p = ext \<Longrightarrow> path_suffix p = ''''"
  by (auto simp: EXT_TO_LANG_def path_suffix_def rfind_dot_def)

lemma bare_ext_suffix:
  assumes "f \<in> set (map fst EXT_TO_LANG)"
  shows "path_suffix (joinpath root f) = ''''"
proof -
  have "path_name (joinpath root f) = f"
    using assms by (intro path_name_joinpath ext_is_name)
  with assms show ?thesis by (rule suffix_of_bare_ext)
qed

lemma visit_no_grammar:
  "lang_of_ext (path_suffix (joinpath root f)) = None \<Longrightarrow> visit e root f st = Inr st"
  by (simp add: visit_def Let_def)

lemma keyed_empty: "keyed e Map.empty"
  by (simp add: keyed_def)

lemma keyed_update:
  assumes "keyed e st"
    and "defs \<noteq> []"
    and "lang_of_ext (path_suffix k) = Some lang"
    and "extract_definitions e k lang = Inr defs"
  shows "keyed e (st(k \<mapsto> defs))"
  using assms unfolding keyed_def by auto

lemma visit_keyed:
  assumes "visit e root file st = Inr st'"
    and "keyed e st"
  shows "keyed e st'"
proof (cases "lang_of_ext (path_suffix (joinpath root file))")
  case None
  with assms show ?thesis by (auto simp: visit_def Let_def split: if_splits)
next
  case (Some lang)
  show ?thesis
  proof (cases "extract_definitions e (joinpath root file) lang")
    case (Inl x)
    with Some assms show ?thesis by (auto simp: visit_def Let_def split: if_splits)
  next
    case (Inr defs)
    show ?thesis
    proof (cases "st' = st")
      case True
      with assms(2) show ?thesis by simp
    next
      case False
      with Some Inr assms(1) have "defs \<noteq> []"
        and "st' = st(joinpath root file \<mapsto> defs)"
        by (auto simp: visit_def Let_def split: if_splits)
      with keyed_update [OF assms(2) _ Some Inr] show ?thesis by simp
    qed
  qed
qed

lemma scan_files_keyed:
  "scan_files e root files st = Inr st' \<Longrightarrow> keyed e st \<Longrightarrow>
     keyed e st'"
proof (induction files arbitrary: st)
  case Nil
  then show ?case by simp
next
  case (Cons f fs)
  from Cons.prems(1) obtain mid where
    v: "visit e root f st = Inr mid" and
    r: "scan_files e root fs mid = Inr st'"
    by (auto split: sum.splits)
  from Cons.IH [OF r visit_keyed [OF v Cons.prems(2)]] show ?case .
qed

lemma scan_dirs_keyed:
  "scan_dirs e dirs st = Inr st' \<Longrightarrow> keyed e st \<Longrightarrow>
     keyed e st'"
proof (induction dirs arbitrary: st)
  case Nil
  then show ?case by simp
next
  case (Cons d dirs)
  obtain root files where d: "d = (root, files)" by (cases d)
  from Cons.prems(1) d obtain mid where
    f: "scan_files e root files st = Inr mid" and
    r: "scan_dirs e dirs mid = Inr st'"
    by (auto split: sum.splits)
  from Cons.IH [OF r scan_files_keyed [OF f Cons.prems(2)]] show ?case .
qed

lemma scan_directory_keyed: "scan_directory e p = Inr r \<Longrightarrow> keyed e r"
  unfolding scan_directory_def by (erule scan_dirs_keyed) (rule keyed_empty)

subsection \<open>The concrete file system, evaluated\<close>

lemma demo_suffix:
  "path_suffix ''a.py'' = ''.py''"
  "path_suffix ''.py'' = ''''"
  "path_suffix ''notes.txt'' = ''.txt''"
  "path_suffix ''sub/empty.py'' = ''.py''"
  "path_suffix ''sub/util.h'' = ''.h''"
  "path_suffix ''sub/locked.py'' = ''.py''"
  "path_suffix ''sub/locked.c'' = ''.c''"
  by (simp_all add: path_suffix_def path_name_def rfind_dot_def)

lemma demo_lang:
  "lang_of_ext ''.py'' = Some ''python''"
  "lang_of_ext ''.h'' = Some ''c''"
  "lang_of_ext ''.c'' = Some ''c''"
  "lang_of_ext ''.txt'' = None"
  by (simp_all add: lang_of_ext_def EXT_TO_LANG_def)

lemma demo_parser:
  "get_parser demo_env ''python'' = Inr (Some (Parser ''python''))"
  "get_parser demo_env ''c'' = Inr (Some (Parser ''c''))"
  "get_parser demo_env_no_python ''python'' = Inr None"
  "get_parser demo_env_no_python ''c'' = Inr (Some (Parser ''c''))"
  "get_parser released_env ''python'' = Inl TypeError"
  "get_parser released_env ''c'' = Inl TypeError"
  "get_parser released_env_bare ''c'' = Inr None"
  by (simp_all add: get_parser_def configure_def demo_env_def demo_env_no_python_def
      released_env_def released_env_bare_def)

lemma demo_no_python:
  "support_package ''python'' = Some ''tree_sitter_python''"
  "\<not> importable demo_env_no_python ''tree_sitter_python''"
  by (simp_all add: support_package_def demo_env_no_python_def)

lemma demo_read:
  "read_bytes demo_env ''a.py'' = Inr a_py"
  "read_bytes demo_env ''.py'' = Inr a_py"
  "read_bytes demo_env ''sub/empty.py'' = Inr ''x = 1''"
  "read_bytes demo_env ''sub/util.h'' = Inr ''int f(void);''"
  "read_bytes demo_env ''sub/locked.py'' = Inl (permission_denied ''sub/locked.py'')"
  "read_bytes demo_env ''sub/locked.c'' = Inl (permission_denied ''sub/locked.c'')"
  by (simp_all add: demo_env_def demo_files_def)

lemma demo_read_no_python: "read_bytes demo_env_no_python = read_bytes demo_env"
  by (simp add: demo_env_no_python_def)

lemma demo_captures:
  "ts_captures demo_env (Parser ''python'') python_query a_py =
     [(foo_def_node, ''func.def''), (foo_name_node, ''func.name'')]"
  "ts_captures demo_env (Parser ''python'') python_query ''x = 1'' = []"
  by (simp_all add: demo_env_def a_py_def)

lemma demo_collect:
  "collect a_py [(foo_def_node, ''func.def''), (foo_name_node, ''func.name'')] [] =
     Inr [Definition ''function'' ''foo'' 1 1]"
  by (simp add: a_py_def foo_def_node_def foo_name_node_def endswith_def slice_def
      decode_utf8_def)

lemma demo_extract:
  "extract_definitions demo_env ''a.py'' ''python'' = Inr [Definition ''function'' ''foo'' 1 1]"
  "extract_definitions demo_env ''sub/empty.py'' ''python'' = Inr []"
  "extract_definitions demo_env ''sub/util.h'' ''c'' = Inr []"
  "extract_definitions demo_env ''sub/locked.py'' ''python'' =
     Inr [ErrorRecord (permission_denied ''sub/locked.py'')]"
  "extract_definitions demo_env ''sub/locked.c'' ''c'' =
     Inr [ErrorRecord (permission_denied ''sub/locked.c'')]"
  by (simp_all add: extract_definitions_def demo_parser demo_read demo_captures demo_collect
      query_of_def del: collect.simps(2))

lemma demo_extract_no_python:
  "extract_definitions demo_env_no_python p ''python'' = Inr []"
  "extract_definitions demo_env_no_python ''sub/util.h'' ''c'' = Inr []"
  "extract_definitions demo_env_no_python ''sub/locked.c'' ''c'' =
     Inr [ErrorRecord (permission_denied ''sub/locked.c'')]"
  by (simp_all add: extract_definitions_def demo_parser demo_read demo_read_no_python
      query_of_def)

lemma demo_join:
  "joinpath ''.'' ''a.py'' = ''a.py''"
  "joinpath ''.'' ''.py'' = ''.py''"
  "joinpath ''.'' ''notes.txt'' = ''notes.txt''"
  "joinpath ''./sub'' ''empty.py'' = ''sub/empty.py''"
  "joinpath ''./sub'' ''util.h'' = ''sub/util.h''"
  "joinpath ''./sub'' ''locked.py'' = ''sub/locked.py''"
  "joinpath ''./sub'' ''locked.c'' = ''sub/locked.c''"
  by (simp_all add: joinpath_def path_str_def path_parts_def path_anchor_def)

lemma demo_filter:
  "list_ex (endswith ''a.py'') (map fst EXT_TO_LANG)"
  "list_ex (endswith ''.py'') (map fst EXT_TO_LANG)"
  "\<not> list_ex (endswith ''notes.txt'') (map fst EXT_TO_LANG)"
  "list_ex (endswith ''sub/empty.py'') (map fst EXT_TO_LANG)"
  "list_ex (endswith ''sub/util.h'') (map fst EXT_TO_LANG)"
  "list_ex (endswith ''sub/locked.py'') (map fst EXT_TO_LANG)"
  "list_ex (endswith ''sub/locked.c'') (map fst EXT_TO_LANG)"
  by (simp_all add: EXT_TO_LANG_def endswith_def)

lemma demo_visit:
  "visit demo_env ''.'' ''a.py'' st = Inr (st(''a.py'' \<mapsto> [Definition ''function'' ''foo'' 1 1]))"
  "visit demo_env ''.'' ''.py'' st = Inr st"
  "visit demo_env ''.'' ''notes.txt'' st = Inr st"
  "visit demo_env ''./sub'' ''empty.py'' st = Inr st"
  "visit demo_env ''./sub'' ''util.h'' st = Inr st"
  "visit demo_env ''./sub'' ''locked.py'' st =
     Inr (st(''sub/locked.py'' \<mapsto> [ErrorRecord (permission_denied ''sub/locked.py'')]))"
  "visit demo_env ''./sub'' ''locked.c'' st =
     Inr (st(''sub/locked.c'' \<mapsto> [ErrorRecord (permission_denied ''sub/locked.c'')]))"
  by (simp_all add: visit_def Let_def demo_join demo_filter demo_suffix demo_lang demo_extract
      lang_of_ext_empty)

lemma demo_visit_no_python:
  "visit demo_env_no_python ''.'' ''a.py'' st = Inr st"
  "visit demo_env_no_python ''.'' ''.py'' st = Inr st"
  "visit demo_env_no_python ''.'' ''notes.txt'' st = Inr st"
  "visit demo_env_no_python ''./sub'' ''empty.py'' st = Inr st"
  "visit demo_env_no_python ''./sub'' ''util.h'' st = Inr st"
  "visit demo_env_no_python ''./sub'' ''locked.py'' st = Inr st"
  "visit demo_env_no_python ''./sub'' ''locked.c'' st =
     Inr (st(''sub/locked.c'' \<mapsto> [ErrorRecord (permission_denied ''sub/locked.c'')]))"
  by (simp_all add: visit_def Let_def demo_join demo_filter demo_suffix demo_lang
      demo_extract_no_python lang_of_ext_empty)

lemma demo_walk:
  "os_walk demo_env ''.'' =
     [(''.'', [''a.py'', ''.py'', ''notes.txt'']),
      (''./sub'', [''empty.py'', ''util.h'', ''locked.py'', ''locked.c''])]"
  by (simp add: demo_env_def)

lemma demo_scan: "scan_directory demo_env ''.'' = Inr demo_report"
  by (simp add: scan_directory_def demo_walk demo_visit demo_report_def)

lemma demo_scan_no_python:
  "scan_directory demo_env_no_python ''.'' =
     Inr [''sub/locked.c'' \<mapsto> [ErrorRecord (permission_denied ''sub/locked.c'')]]"
  by (simp add: scan_directory_def demo_env_no_python_def demo_walk
      demo_visit_no_python [unfolded demo_env_no_python_def])

text \<open>The machine with the library as released: every file of an installed grammar.\<close>

lemma released_facts:
  "tree_sitter_installed released_env"
  "importable released_env m"
  "path_exists released_env = path_exists demo_env"
  "path_is_file released_env = path_is_file demo_env"
  "read_bytes released_env = read_bytes demo_env"
  "read_bytes released_env_bare = read_bytes demo_env"
  "\<not> importable released_env_bare m"
  by (simp_all add: released_env_def released_env_bare_def demo_env_def)

lemma demo_paths:
  "tree_sitter_installed demo_env"
  "path_exists demo_env ''a.py''" "path_is_file demo_env ''a.py''"
  "path_exists demo_env ''notes.txt''" "path_is_file demo_env ''notes.txt''"
  "path_exists demo_env ''sub/empty.py''" "path_is_file demo_env ''sub/empty.py''"
  "path_exists demo_env ''sub/locked.py''" "path_is_file demo_env ''sub/locked.py''"
  "path_exists demo_env ''sub/locked.c''" "path_is_file demo_env ''sub/locked.c''"
  "\<not> path_exists demo_env ''gone.py''"
  by (simp_all add: demo_env_def demo_files_def)

lemma released_extract:
  "extract_definitions released_env p ''python'' = Inl TypeError"
  "extract_definitions released_env p ''c'' = Inl TypeError"
  "extract_definitions released_env_bare p ''c'' = Inr []"
  by (simp_all add: extract_raises extract_unavailable demo_parser)

lemma released_run:
  "run released_env ''a.py'' = Uncaught TypeError"
  "run released_env ''sub/locked.py'' = Uncaught TypeError"
  "run released_env ''sub/locked.c'' = Uncaught TypeError"
  by (simp_all add: run_def main_def released_facts demo_paths demo_suffix demo_lang
      released_extract)

subsection \<open>The function of the example\<close>

text \<open>
  C1 expects, for a file with one function \<open>f\<close> whose definition runs from line L to line
  M, the record with \<open>start_line\<close> L and \<open>end_line\<close> M; for \<open>a.py\<close>, lines 1 to 2. The loop
  takes both line numbers from the node captured as \<open>func.name\<close>, the identifier, and not
  from the node captured as \<open>func.def\<close>: for \<open>a.py\<close> the record ends at line 1. (That is
  the run on a machine whose \<open>set_language\<close> takes the language value; with the library as
  released the run on \<open>a.py\<close> ends in \<open>get_parser\<close> and emits no record at all, see
  \<open>released_run\<close>.)
\<close>

theorem a_py_example_end_line:
  "run demo_env ''a.py'' = Printed [''a.py'' \<mapsto> [Definition ''function'' ''foo'' 1 1]] \<and>
   run demo_env ''a.py'' \<noteq> Printed [''a.py'' \<mapsto> [Definition ''function'' ''foo'' 1 2]] \<and>
   int (fst (start_point foo_def_node)) + 1 = 1 \<and>
   int (fst (end_point foo_def_node)) + 1 = 2"
proof -
  have "tree_sitter_installed demo_env" "path_exists demo_env ''a.py''"
    "path_is_file demo_env ''a.py''"
    by (simp_all add: demo_env_def demo_files_def)
  then have "run demo_env ''a.py'' = Printed [''a.py'' \<mapsto> [Definition ''function'' ''foo'' 1 1]]"
    by (simp add: run_def main_def demo_suffix demo_lang demo_extract)
  moreover have "[''a.py'' \<mapsto> [Definition ''function'' ''foo'' 1 1]] \<noteq>
      [''a.py'' \<mapsto> [Definition ''function'' ''foo'' 1 2]]"
    by (auto dest: map_upd_eqD1)
  moreover have "int (fst (start_point foo_def_node)) + 1 = 1"
    and "int (fst (end_point foo_def_node)) + 1 = 2"
    by (simp_all add: foo_def_node_def)
  ultimately show ?thesis by simp
qed

subsection \<open>Line numbers\<close>

text \<open>
  C2: every definition record that \<open>extract_definitions\<close> emits, for any grammar and any
  bytes, has \<open>start_line\<close> at least 1 and \<open>end_line\<close> at least \<open>start_line\<close>. The rows come
  from the library's nodes, whose end point is never on an earlier row than their start
  point; that is the one thing assumed of the library here.
\<close>

theorem line_numbers_one_based_and_ordered:
  assumes "extract_definitions e file_path lang_name = Inr defs"
    and "Definition t n s l \<in> set defs"
    and "\<forall>parser query content. \<forall>(node, tag) \<in> set (ts_captures e parser query content).
           fst (start_point node) \<le> fst (end_point node)"
  shows "1 \<le> s \<and> s \<le> l"
proof -
  from assms(1,2) obtain parser content query where
    run: "collect content (ts_captures e parser query content) [] = Inr defs"
    by (auto simp: extract_definitions_def split: option.splits sum.splits)
  from assms(3) have
    "\<forall>(node, tag) \<in> set (ts_captures e parser query content).
       fst (start_point node) \<le> fst (end_point node)"
    by blast
  from collect_lines [OF run this] assms(2) show ?thesis by fastforce
qed

theorem line_numbers_one_based_and_ordered_witness:
  "extract_definitions demo_env ''a.py'' ''python'' = Inr [Definition ''function'' ''foo'' 1 1] \<and>
   Definition ''function'' ''foo'' 1 1 \<in> set [Definition ''function'' ''foo'' 1 1] \<and>
   fst (start_point foo_name_node) \<le> fst (end_point foo_name_node) \<and>
   fst (start_point foo_def_node) \<le> fst (end_point foo_def_node) \<and>
   (1::int) \<le> 1"
proof -
  have rows: "\<forall>parser query content. \<forall>(node, tag) \<in> set (ts_captures demo_env parser query content).
      fst (start_point node) \<le> fst (end_point node)"
    by (auto simp: demo_env_def foo_def_node_def foo_name_node_def)
  have "Definition ''function'' ''foo'' 1 1 \<in> set [Definition ''function'' ''foo'' 1 1]"
    by simp
  from line_numbers_one_based_and_ordered [OF demo_extract(1) this rows] demo_extract(1)
  show ?thesis by (simp add: foo_def_node_def foo_name_node_def)
qed

subsection \<open>C and C++ files\<close>

text \<open>
  C3 claims that a file with extension \<open>.c\<close>, \<open>.h\<close>, \<open>.cpp\<close> or \<open>.hpp\<close> always yields the
  empty list and never an error record, whether or not it can be read. With the C package
  installed and the library as released, \<open>get_parser\<close> raises and extraction of a header
  that can be read returns no list at all. And where \<open>get_parser\<close> does hand out a parser,
  the file is opened before the grammar is looked at, so a C file that cannot be read
  yields the error record.
\<close>

theorem c_file_counterexample:
  "lang_of_ext (path_suffix ''sub/util.h'') = Some ''c'' \<and>
   importable released_env ''tree_sitter_c'' \<and>
   read_bytes released_env ''sub/util.h'' = Inr ''int f(void);'' \<and>
   extract_definitions released_env ''sub/util.h'' ''c'' = Inl TypeError \<and>
   extract_definitions released_env ''sub/util.h'' ''c'' \<noteq> Inr [] \<and>
   lang_of_ext (path_suffix ''sub/locked.c'') = Some ''c'' \<and>
   get_parser demo_env ''c'' = Inr (Some (Parser ''c'')) \<and>
   read_bytes demo_env ''sub/locked.c'' = Inl (permission_denied ''sub/locked.c'') \<and>
   extract_definitions demo_env ''sub/locked.c'' ''c'' =
     Inr [ErrorRecord (permission_denied ''sub/locked.c'')]"
  by (simp add: demo_suffix demo_lang demo_parser demo_read demo_extract released_facts
      released_extract)

text \<open>
  C3, amended: for these four extensions, whenever \<open>get_parser\<close> returns,
  \<open>extract_definitions\<close> returns the empty list if the grammar package could not be
  imported or the file can be read, whatever its bytes; if a parser was handed out and the
  read fails, it returns the one error record.
\<close>

theorem c_cpp_extraction:
  assumes "ext \<in> {''.c'', ''.h'', ''.cpp'', ''.hpp''}"
  shows "\<exists>lang. lang_of_ext ext = Some lang \<and>
           (get_parser e lang = Inr None \<longrightarrow> extract_definitions e p lang = Inr []) \<and>
           (\<forall>parser. get_parser e lang = Inr (Some parser) \<longrightarrow>
              extract_definitions e p lang =
                (case read_bytes e p of
                   Inl msg \<Rightarrow> Inr [ErrorRecord msg]
                 | Inr content \<Rightarrow> Inr []))"
proof -
  from assms have "lang_of_ext ext = Some ''c'' \<or> lang_of_ext ext = Some ''cpp''"
    by (auto simp: lang_of_ext_def EXT_TO_LANG_def)
  moreover have "query_of ''c'' = None" "query_of ''cpp'' = None"
    by (simp_all add: query_of_def)
  ultimately show ?thesis
    by (auto simp: extract_definitions_def split: sum.splits)
qed

theorem c_cpp_extraction_witness:
  "''.h'' \<in> {''.c'', ''.h'', ''.cpp'', ''.hpp''} \<and>
   lang_of_ext ''.h'' = Some ''c'' \<and>
   get_parser released_env_bare ''c'' = Inr None \<and>
   extract_definitions released_env_bare ''sub/util.h'' ''c'' = Inr [] \<and>
   get_parser demo_env ''c'' = Inr (Some (Parser ''c'')) \<and>
   read_bytes demo_env ''sub/util.h'' = Inr ''int f(void);'' \<and>
   extract_definitions demo_env ''sub/util.h'' ''c'' = Inr []"
proof -
  have a: "''.h'' \<in> {''.c'', ''.h'', ''.cpp'', ''.hpp''}" by simp
  from c_cpp_extraction [OF a, of released_env_bare "''sub/util.h''"]
    c_cpp_extraction [OF a, of demo_env "''sub/util.h''"] a
  show ?thesis by (simp add: demo_lang demo_parser demo_read)
qed

subsection \<open>A file that cannot be read\<close>

text \<open>
  Once \<open>get_parser\<close> has handed out a parser, a file that cannot be read gives the report
  with the one error record.
\<close>

lemma unreadable_after_parser:
  assumes "tree_sitter_installed e"
    and "path_exists e p"
    and "path_is_file e p"
    and "lang_of_ext (path_suffix p) = Some lang"
    and "get_parser e lang = Inr (Some parser)"
    and "read_bytes e p = Inl msg"
  shows "run e p = Printed [p \<mapsto> [ErrorRecord msg]]"
proof -
  from assms(5,6) have x: "extract_definitions e p lang = Inr [ErrorRecord msg]"
    by (rule extract_unreadable)
  from assms(4) have "lang \<noteq> ''''" by (rule lang_of_ext_nonempty)
  with assms(1-4) x show ?thesis by (simp add: run_def main_def)
qed

lemma demo_locked_py:
  "run demo_env ''sub/locked.py'' =
     Printed [''sub/locked.py'' \<mapsto> [ErrorRecord (permission_denied ''sub/locked.py'')]]"
  by (rule unreadable_after_parser [where lang = "''python''"])
     (simp_all add: demo_paths demo_suffix demo_lang demo_parser demo_read)

text \<open>
  C4 expects, for a file with a supported extension whose grammar package can be imported
  and whose bytes cannot be read, the report with the one error record in single-file
  mode, and no exception. With the library as released the package is imported and
  \<open>set_language\<close>, handed the bare language value, raises before the file is opened: the
  exception leaves \<open>get_parser\<close>, extraction and \<open>main\<close>, and no report is printed.
\<close>

theorem unreadable_file_released_library:
  "path_exists released_env ''sub/locked.py'' \<and>
   path_is_file released_env ''sub/locked.py'' \<and>
   lang_of_ext (path_suffix ''sub/locked.py'') = Some ''python'' \<and>
   support_package ''python'' = Some ''tree_sitter_python'' \<and>
   importable released_env ''tree_sitter_python'' \<and>
   read_bytes released_env ''sub/locked.py'' = Inl (permission_denied ''sub/locked.py'') \<and>
   get_parser released_env ''python'' = Inl TypeError \<and>
   extract_definitions released_env ''sub/locked.py'' ''python'' = Inl TypeError \<and>
   run released_env ''sub/locked.py'' = Uncaught TypeError \<and>
   run released_env ''sub/locked.py'' \<noteq>
     Printed [''sub/locked.py'' \<mapsto> [ErrorRecord (permission_denied ''sub/locked.py'')]]"
  by (simp add: released_facts demo_paths demo_suffix demo_lang demo_read demo_parser
      released_extract released_run support_package_def)

subsection \<open>The directory report\<close>

text \<open>
  C5: the report built by \<open>scan_directory\<close> has no key for a file whose extraction gave no
  record. Whatever the root directory, every key of the report maps to a list that is not
  empty, and that list is what \<open>extract_definitions\<close> returns for the path that is the key.
\<close>

theorem scan_directory_values_nonempty:
  assumes "scan_directory e p = Inr r"
    and "r k = Some defs"
  shows "defs \<noteq> [] \<and>
         (\<exists>lang. lang_of_ext (path_suffix k) = Some lang \<and>
                 extract_definitions e k lang = Inr defs)"
  using scan_directory_keyed [OF assms(1)] assms(2) unfolding keyed_def by blast

theorem scan_directory_values_nonempty_witness:
  "scan_directory demo_env ''.'' = Inr demo_report \<and>
   demo_report ''a.py'' = Some [Definition ''function'' ''foo'' 1 1] \<and>
   demo_report ''sub/empty.py'' = None \<and>
   [Definition ''function'' ''foo'' 1 1] \<noteq> [] \<and>
   (\<exists>lang. lang_of_ext (path_suffix ''a.py'') = Some lang \<and>
           extract_definitions demo_env ''a.py'' lang = Inr [Definition ''function'' ''foo'' 1 1])"
proof -
  have k: "demo_report ''a.py'' = Some [Definition ''function'' ''foo'' 1 1]"
    and n: "demo_report ''sub/empty.py'' = None"
    by (simp_all add: demo_report_def)
  from scan_directory_values_nonempty [OF demo_scan k] demo_scan k n show ?thesis by simp
qed

subsection \<open>Single-file mode\<close>

text \<open>
  C6: for an existing file with a supported extension, single-file mode prints a report
  with exactly one key, the path that was asked for, whatever extraction found: the value
  is the list extraction returned, the empty list included. (When \<open>get_parser\<close> or the
  decoding of a name raises, the exception leaves \<open>main\<close> and nothing is printed.)
\<close>

theorem single_file_report_one_key:
  assumes "tree_sitter_installed e"
    and "path_exists e p"
    and "path_is_file e p"
    and "lang_of_ext (path_suffix p) = Some lang"
  shows "run e p =
           (case extract_definitions e p lang of
              Inl x \<Rightarrow> Uncaught x
            | Inr defs \<Rightarrow> Printed [p \<mapsto> defs]) \<and>
         (\<forall>r. run e p = Printed r \<longrightarrow> dom r = {p})"
proof -
  from assms(4) have "lang \<noteq> ''''" by (rule lang_of_ext_nonempty)
  with assms have shape: "run e p =
           (case extract_definitions e p lang of
              Inl x \<Rightarrow> Uncaught x
            | Inr defs \<Rightarrow> Printed [p \<mapsto> defs])"
    by (simp add: run_def main_def)
  then have "\<forall>r. run e p = Printed r \<longrightarrow> dom r = {p}"
    by (auto split: sum.splits)
  with shape show ?thesis by simp
qed

theorem single_file_report_one_key_witness:
  "tree_sitter_installed demo_env \<and>
   path_exists demo_env ''sub/empty.py'' \<and>
   path_is_file demo_env ''sub/empty.py'' \<and>
   lang_of_ext (path_suffix ''sub/empty.py'') = Some ''python'' \<and>
   run demo_env ''sub/empty.py'' = Printed [''sub/empty.py'' \<mapsto> []] \<and>
   dom [''sub/empty.py'' \<mapsto> ([] :: entry list)] = {''sub/empty.py''}"
proof -
  have a: "tree_sitter_installed demo_env" "path_exists demo_env ''sub/empty.py''"
    "path_is_file demo_env ''sub/empty.py''"
    by (simp_all add: demo_env_def demo_files_def)
  have b: "lang_of_ext (path_suffix ''sub/empty.py'') = Some ''python''"
    by (simp add: demo_suffix demo_lang)
  from single_file_report_one_key [OF a b] a b show ?thesis
    by (simp add: demo_extract)
qed

subsection \<open>Exit codes\<close>

text \<open>
  C7 claims that the exit code is 1 exactly when the tree-sitter library cannot be imported
  at startup or the target path does not exist. An exception that leaves \<open>main\<close> ends the
  process with status 1 as well: with the library as released, the run on the existing file
  \<open>a.py\<close> ends so.
\<close>

theorem exit_code_counterexample:
  "tree_sitter_installed released_env \<and>
   path_exists released_env ''a.py'' \<and>
   run released_env ''a.py'' = Uncaught TypeError \<and>
   exit_code (run released_env ''a.py'') = 1"
  by (simp add: released_facts demo_paths released_run)

text \<open>
  C7, amended: the exit code is 0 when \<open>main\<close> returns, that is after a report was
  printed and also when a single file with an unsupported extension is given, where only a
  message goes to the error stream; it is 1 when the tree-sitter library cannot be imported
  at startup, when the target path does not exist, and when an exception leaves \<open>main\<close>;
  there is no other case.
\<close>

theorem exit_code_cases:
  "(exit_code (run e p) = 1 \<longleftrightarrow>
      \<not> tree_sitter_installed e \<or> \<not> path_exists e p \<or> (\<exists>x. run e p = Uncaught x)) \<and>
   (exit_code (run e p) = 0 \<longleftrightarrow>
      tree_sitter_installed e \<and> path_exists e p \<and> (\<forall>x. run e p \<noteq> Uncaught x)) \<and>
   (\<forall>r. run e p = Printed r \<longrightarrow> exit_code (run e p) = 0) \<and>
   (tree_sitter_installed e \<and> path_exists e p \<and> path_is_file e p \<and>
    lang_of_ext (path_suffix p) = None \<longrightarrow>
      run e p = Complained (''Unsupported file extension: '' @ path_suffix p) \<and>
      exit_code (run e p) = 0)"
proof -
  have one: "exit_code (run e p) = 1 \<longleftrightarrow>
      \<not> tree_sitter_installed e \<or> \<not> path_exists e p \<or> (\<exists>x. run e p = Uncaught x)"
    by (auto simp: run_def main_def Let_def split: option.splits sum.splits)
  have zero: "exit_code (run e p) = 0 \<longleftrightarrow>
      tree_sitter_installed e \<and> path_exists e p \<and> (\<forall>x. run e p \<noteq> Uncaught x)"
    by (auto simp: run_def main_def Let_def split: option.splits sum.splits)
  have printed: "\<forall>r. run e p = Printed r \<longrightarrow> exit_code (run e p) = 0"
    by simp
  have unsupported: "tree_sitter_installed e \<and> path_exists e p \<and> path_is_file e p \<and>
    lang_of_ext (path_suffix p) = None \<longrightarrow>
      run e p = Complained (''Unsupported file extension: '' @ path_suffix p) \<and>
      exit_code (run e p) = 0"
    by (simp add: run_def main_def)
  from one zero printed unsupported show ?thesis by blast
qed

theorem exit_code_cases_witness:
  "exit_code (run demo_env ''notes.txt'') = 0 \<and>
   run demo_env ''notes.txt'' = Complained ''Unsupported file extension: .txt'' \<and>
   exit_code (run demo_env ''a.py'') = 0 \<and>
   exit_code (run demo_env ''gone.py'') = 1 \<and>
   exit_code (run (demo_env\<lparr>tree_sitter_installed := False\<rparr>) ''a.py'') = 1 \<and>
   exit_code (run released_env ''a.py'') = 1"
proof -
  have b: "lang_of_ext (path_suffix ''notes.txt'') = None"
    by (simp add: demo_suffix demo_lang)
  have c: "run demo_env ''a.py'' = Printed [''a.py'' \<mapsto> [Definition ''function'' ''foo'' 1 1]]"
    by (simp add: run_def main_def demo_paths demo_suffix demo_lang demo_extract)
  from exit_code_cases [of demo_env "''notes.txt''"] b
  have 1: "exit_code (run demo_env ''notes.txt'') = 0 \<and>
     run demo_env ''notes.txt'' = Complained ''Unsupported file extension: .txt''"
    by (simp add: demo_paths demo_suffix)
  from exit_code_cases [of demo_env "''a.py''"] c
  have 2: "exit_code (run demo_env ''a.py'') = 0" by simp
  from exit_code_cases [of demo_env "''gone.py''"]
  have 3: "exit_code (run demo_env ''gone.py'') = 1" by (simp add: demo_paths)
  from exit_code_cases [of "demo_env\<lparr>tree_sitter_installed := False\<rparr>" "''a.py''"]
  have 4: "exit_code (run (demo_env\<lparr>tree_sitter_installed := False\<rparr>) ''a.py'') = 1"
    by simp
  from exit_code_cases [of released_env "''a.py''"]
  have 5: "exit_code (run released_env ''a.py'') = 1" by (simp add: released_run)
  from 1 2 3 4 5 show ?thesis by simp
qed

subsection \<open>A grammar package that is not installed\<close>

text \<open>
  C8: when the support package of a grammar cannot be imported, \<open>get_parser\<close> returns
  \<open>None\<close> and \<open>extract_definitions\<close> the empty list; in directory mode a file of that
  grammar is passed over, the report is left as it was and the scan goes on with the
  remaining files.
\<close>

theorem unavailable_grammar_is_skipped:
  assumes "support_package lang = Some m"
    and "\<not> importable e m"
  shows "get_parser e lang = Inr None \<and>
         extract_definitions e p lang = Inr [] \<and>
         (lang_of_ext (path_suffix (joinpath root file)) = Some lang \<longrightarrow>
            visit e root file st = Inr st \<and>
            scan_files e root (file # files) st = scan_files e root files st \<and>
            (\<forall>r. scan_directory e dir = Inr r \<longrightarrow> r (joinpath root file) = None))"
proof -
  have none: "get_parser e lang = Inr None"
    using assms by (rule get_parser_unavailable)
  then have empty: "\<And>q. extract_definitions e q lang = Inr []"
    by (rule extract_unavailable)
  have skip: "visit e root file st = Inr st"
    if "lang_of_ext (path_suffix (joinpath root file)) = Some lang"
    using that empty [of "joinpath root file"] by (simp add: visit_def Let_def)
  have absent: "r (joinpath root file) = None"
    if s: "lang_of_ext (path_suffix (joinpath root file)) = Some lang"
      and r: "scan_directory e dir = Inr r" for r
  proof (cases "r (joinpath root file)")
    case None
    then show ?thesis .
  next
    case (Some defs)
    from r have "keyed e r" by (rule scan_directory_keyed)
    with Some s have "defs \<noteq> []" and "extract_definitions e (joinpath root file) lang = Inr defs"
      unfolding keyed_def by fastforce+
    with empty [of "joinpath root file"] show ?thesis by simp
  qed
  from none empty skip absent show ?thesis by simp
qed

theorem unavailable_grammar_is_skipped_witness:
  "support_package ''python'' = Some ''tree_sitter_python'' \<and>
   \<not> importable demo_env_no_python ''tree_sitter_python'' \<and>
   get_parser demo_env_no_python ''python'' = Inr None \<and>
   extract_definitions demo_env_no_python ''a.py'' ''python'' = Inr [] \<and>
   lang_of_ext (path_suffix (joinpath ''.'' ''a.py'')) = Some ''python'' \<and>
   visit demo_env_no_python ''.'' ''a.py'' Map.empty = Inr Map.empty \<and>
   scan_files demo_env_no_python ''.'' [''a.py'', ''.py'', ''notes.txt''] Map.empty =
     scan_files demo_env_no_python ''.'' [''.py'', ''notes.txt''] Map.empty \<and>
   scan_directory demo_env_no_python ''.'' =
     Inr [''sub/locked.c'' \<mapsto> [ErrorRecord (permission_denied ''sub/locked.c'')]] \<and>
   [''sub/locked.c'' \<mapsto> [ErrorRecord (permission_denied ''sub/locked.c'')]]
     (joinpath ''.'' ''a.py'') = None"
proof -
  have s: "lang_of_ext (path_suffix (joinpath ''.'' ''a.py'')) = Some ''python''"
    by (simp add: demo_join demo_suffix demo_lang)
  from unavailable_grammar_is_skipped [OF demo_no_python, of "''a.py''" "''.''" "''a.py''"
      Map.empty "[''.py'', ''notes.txt'']" "''.''"] s demo_no_python demo_scan_no_python
  show ?thesis by simp
qed

text \<open>
  C9: when the grammar package is unavailable, \<open>extract_definitions\<close> returns the empty
  list before it opens the file: the result does not depend on what reading the file
  would give, so a file that cannot be read yields no error record either.
\<close>

theorem unavailable_grammar_reads_nothing:
  assumes "support_package lang = Some m"
    and "\<not> importable e m"
  shows "extract_definitions (e\<lparr>read_bytes := rb\<rparr>) p lang = Inr [] \<and>
         extract_definitions e p lang = Inr [] \<and>
         (\<forall>msg. read_bytes e p = Inl msg \<longrightarrow>
            extract_definitions e p lang \<noteq> Inr [ErrorRecord msg])"
proof -
  have none: "get_parser e lang = Inr None"
    using assms by (rule get_parser_unavailable)
  then have "get_parser (e\<lparr>read_bytes := rb\<rparr>) lang = Inr None"
    by (simp add: get_parser_read_bytes)
  then have "extract_definitions (e\<lparr>read_bytes := rb\<rparr>) p lang = Inr []"
    by (rule extract_unavailable)
  moreover have "extract_definitions e p lang = Inr []"
    using none by (rule extract_unavailable)
  ultimately show ?thesis by simp
qed

theorem unavailable_grammar_reads_nothing_witness:
  "support_package ''python'' = Some ''tree_sitter_python'' \<and>
   \<not> importable demo_env_no_python ''tree_sitter_python'' \<and>
   read_bytes demo_env_no_python ''sub/locked.py'' = Inl (permission_denied ''sub/locked.py'') \<and>
   extract_definitions demo_env_no_python ''sub/locked.py'' ''python'' = Inr [] \<and>
   extract_definitions (demo_env_no_python\<lparr>read_bytes := \<lambda>p. Inl ''unreadable''\<rparr>)
     ''sub/locked.py'' ''python'' = Inr []"
proof -
  have r: "read_bytes demo_env_no_python ''sub/locked.py'' = Inl (permission_denied ''sub/locked.py'')"
    by (simp add: demo_read_no_python demo_read)
  from unavailable_grammar_reads_nothing [OF demo_no_python,
      of "\<lambda>p. Inl ''unreadable''" "''sub/locked.py''"] r demo_no_python
  show ?thesis by simp
qed

subsection \<open>A file named like an extension\<close>

text \<open>
  C10: in directory mode a file whose whole name is one of the supported extensions (a
  hidden file called \<open>.py\<close>, say) passes the \<open>endswith\<close> filter of the walk, but its path
  has the empty suffix, which has no grammar: the file is not extracted and its path is
  not a key of the report. A file whose suffix has no grammar is never extracted, and the
  suffix of every key of the report is a key of \<open>EXT_TO_LANG\<close>.
\<close>

theorem bare_extension_name_not_extracted:
  assumes "file \<in> set (map fst EXT_TO_LANG)"
  shows "list_ex (endswith (joinpath root file)) (map fst EXT_TO_LANG) \<and>
         path_suffix (joinpath root file) = '''' \<and>
         lang_of_ext (path_suffix (joinpath root file)) = None \<and>
         visit e root file st = Inr st \<and>
         (\<forall>r. scan_directory e p = Inr r \<longrightarrow>
            r (joinpath root file) = None \<and>
            (\<forall>k \<in> dom r. path_suffix k \<in> set (map fst EXT_TO_LANG))) \<and>
         (\<forall>root' file'. lang_of_ext (path_suffix (joinpath root' file')) = None \<longrightarrow>
            visit e root' file' st = Inr st)"
proof -
  have passes: "list_ex (endswith (joinpath root file)) (map fst EXT_TO_LANG)"
    unfolding list_ex_iff using assms endswith_joinpath [OF ext_is_name [OF assms]] by blast
  have suffix: "path_suffix (joinpath root file) = ''''"
    using assms by (rule bare_ext_suffix)
  then have none: "lang_of_ext (path_suffix (joinpath root file)) = None"
    by (simp add: lang_of_ext_empty)
  then have skip: "visit e root file st = Inr st"
    by (rule visit_no_grammar)
  have report: "r (joinpath root file) = None \<and>
      (\<forall>k \<in> dom r. path_suffix k \<in> set (map fst EXT_TO_LANG))"
    if "scan_directory e p = Inr r" for r
  proof -
    from that have k: "keyed e r" by (rule scan_directory_keyed)
    have "r (joinpath root file) = None"
    proof (cases "r (joinpath root file)")
      case None
      then show ?thesis .
    next
      case (Some defs)
      with k none show ?thesis unfolding keyed_def by fastforce
    qed
    moreover have "\<forall>k \<in> dom r. path_suffix k \<in> set (map fst EXT_TO_LANG)"
      using k lang_of_ext_dom unfolding keyed_def by blast
    ultimately show ?thesis by simp
  qed
  from passes suffix none skip report visit_no_grammar show ?thesis by blast
qed

theorem bare_extension_name_not_extracted_witness:
  "''.py'' \<in> set (map fst EXT_TO_LANG) \<and>
   list_ex (endswith (joinpath ''.'' ''.py'')) (map fst EXT_TO_LANG) \<and>
   path_suffix (joinpath ''.'' ''.py'') = '''' \<and>
   read_bytes demo_env (joinpath ''.'' ''.py'') = read_bytes demo_env ''a.py'' \<and>
   visit demo_env ''.'' ''.py'' Map.empty = Inr Map.empty \<and>
   scan_directory demo_env ''.'' = Inr demo_report \<and>
   demo_report (joinpath ''.'' ''.py'') = None \<and>
   demo_report ''a.py'' = Some [Definition ''function'' ''foo'' 1 1]"
proof -
  have a: "''.py'' \<in> set (map fst EXT_TO_LANG)"
    by (simp add: EXT_TO_LANG_def)
  have b: "demo_report ''a.py'' = Some [Definition ''function'' ''foo'' 1 1]"
    by (simp add: demo_report_def)
  from bare_extension_name_not_extracted [OF a, of "''.''" demo_env Map.empty "''.''"]
    a b demo_scan
  show ?thesis by (simp add: demo_join demo_read)
qed
end
